theory Spec2Isabelle
  imports Main "HOL-Library.AList"
begin

section \<open>k0smotron control-plane controller: helper functions\<close>

text \<open>
  A shallow embedding of \<^verbatim>\<open>internal/controller/controlplane/helper.go\<close>. Go structs are
  records, \<^verbatim>\<open>map[string]string\<close> is a partial map, a pointer that may be nil is an option,
  and a schemaless \<^verbatim>\<open>unstructured.Unstructured\<close> document is a tree of JSON values whose
  objects are association lists with one entry per key.
\<close>

subsection \<open>Unstructured documents\<close>

datatype json =
    JNull
  | JBool bool
  | JNum int
  | JStr string
  | JArr "json list"
  | JObj "(string \<times> json) list"

type_synonym object = "(string \<times> json) list"

datatype error =
    NilPointer
  | TypeAssertion
  | AccessorError
  | GetError
  | PatchError
  | DeleteError
  | PostError
  | ListError

text \<open>
  \<^verbatim>\<open>unstructured.NestedFieldNoCopy\<close>: walks the fields from the root. A missing key or a nil
  on the way is "not found" (\<open>Inr None\<close>); anything else that is not a map on the way is an
  accessor error.
\<close>

fun NestedFieldNoCopy :: "json \<Rightarrow> string list \<Rightarrow> error + json option" where
  "NestedFieldNoCopy val [] = Inr (Some val)"
| "NestedFieldNoCopy JNull (field # fields) = Inr None"
| "NestedFieldNoCopy (JObj m) (field # fields) =
     (case map_of m field of
        None \<Rightarrow> Inr None
      | Some v \<Rightarrow> NestedFieldNoCopy v fields)"
| "NestedFieldNoCopy val (field # fields) = Inl AccessorError"


text \<open>
  \<^verbatim>\<open>unstructured.NestedStringMap\<close>: the value found must be a map all of whose values are
  strings; \<open>strings_of\<close> is its conversion loop.
\<close>

fun strings_of :: "object \<Rightarrow> (string \<times> string) list option" where
  "strings_of [] = Some []"
| "strings_of ((k, JStr s) # rest) =
     (case strings_of rest of None \<Rightarrow> None | Some ss \<Rightarrow> Some ((k, s) # ss))"
| "strings_of ((k, v) # rest) = None"

definition NestedStringMap :: "object \<Rightarrow> string list \<Rightarrow> error + (string \<times> string) list option" where
  "NestedStringMap obj fields =
     (case NestedFieldNoCopy (JObj obj) fields of
        Inl e \<Rightarrow> Inl e
      | Inr None \<Rightarrow> Inr None
      | Inr (Some (JObj m)) \<Rightarrow>
          (case strings_of m of None \<Rightarrow> Inl AccessorError | Some ss \<Rightarrow> Inr (Some ss))
      | Inr (Some _) \<Rightarrow> Inl AccessorError)"

text \<open>
  \<^verbatim>\<open>(*Unstructured).GetAnnotations\<close> drops the found flag and the error of
  \<^verbatim>\<open>NestedStringMap\<close>, so every failure is the nil map.
\<close>

definition GetAnnotations :: "object \<Rightarrow> (string \<rightharpoonup> string)" where
  "GetAnnotations u =
     (case NestedStringMap u [''metadata'', ''annotations''] of
        Inr (Some ss) \<Rightarrow> map_of ss
      | _ \<Rightarrow> Map.empty)"

text \<open>Indexing a Go \<^verbatim>\<open>map[string]string\<close>: a missing key reads as the empty string.\<close>

definition index :: "(string \<rightharpoonup> string) \<Rightarrow> string \<Rightarrow> string" where
  "index m k = (case m k of None \<Rightarrow> '''' | Some v \<Rightarrow> v)"

subsection \<open>API objects\<close>

record ObjectReference =
  ref_Kind :: string
  ref_Namespace :: string
  ref_Name :: string
  ref_APIVersion :: string

text \<open>
  \<^verbatim>\<open>schema.ParseGroupVersion\<close> and \<^verbatim>\<open>ObjectReference.GroupVersionKind\<close>: the group is what
  stands before the only slash of the API version; with no slash the whole string is the
  version, and with more than one slash parsing fails and the group stays empty.
\<close>

definition group_of :: "string \<Rightarrow> string" where
  "group_of gv =
     (if gv = [] \<or> gv = ''/'' then ''''
      else if count_list gv (CHR ''/'') = 1 then takeWhile (\<lambda>c. c \<noteq> CHR ''/'') gv
      else '''')"

text \<open>\<^verbatim>\<open>GroupKind.String\<close>.\<close>

definition GroupKindString :: "ObjectReference \<Rightarrow> string" where
  "GroupKindString r =
     (if group_of (ref_APIVersion r) = [] then ref_Kind r
      else ref_Kind r @ ''.'' @ group_of (ref_APIVersion r))"

record TunnelingSpec =
  tun_Enabled :: bool
  tun_Mode :: string
  tun_ServerAddress :: string
  tun_TunnelingNodePort :: int

record K0sConfigSpec =
  cfg_K0s :: "json option"
  cfg_Args :: "string list"
  cfg_DownloadURL :: string
  cfg_Tunneling :: TunnelingSpec

record K0sControlPlaneMachineTemplate =
  tpl_Labels :: "string \<rightharpoonup> string"
  tpl_InfrastructureRef :: ObjectReference

record K0sControlPlane =
  kcp_Name :: string
  kcp_Namespace :: string
  kcp_Annotations :: "string \<rightharpoonup> string"
  kcp_Version :: string
  kcp_Replicas :: int
  kcp_K0sConfigSpec :: K0sConfigSpec
  kcp_MachineTemplate :: "K0sControlPlaneMachineTemplate option"

record APIEndpoint =
  ep_Host :: string
  ep_Port :: int

record NetworkRanges =
  CIDRBlocks :: "string list"

record ClusterNetwork =
  net_Services :: "NetworkRanges option"
  net_Pods :: "NetworkRanges option"
  net_ServiceDomain :: string

record Cluster =
  cluster_Name :: string
  cluster_Namespace :: string
  cluster_Paused :: bool
  cluster_ClusterNetwork :: "ClusterNetwork option"
  cluster_ControlPlaneEndpoint :: APIEndpoint

record Machine =
  machine_APIVersion :: string
  machine_Kind :: string
  machine_Name :: string
  machine_Namespace :: string
  machine_Labels :: "string \<rightharpoonup> string"
  machine_Version :: "string option"
  machine_ClusterName :: string
  machine_FailureDomain :: "string option"
  machine_ConfigRef :: "ObjectReference option"
  machine_InfrastructureRef :: ObjectReference

text \<open>Constants of the Cluster API that the helpers name.\<close>

definition GroupVersionString :: string where
  "GroupVersionString = ''cluster.x-k8s.io/v1beta1''"

definition TemplateClonedFromNameAnnotation :: string where
  "TemplateClonedFromNameAnnotation = ''cluster.x-k8s.io/cloned-from-name''"

definition TemplateClonedFromGroupKindAnnotation :: string where
  "TemplateClonedFromGroupKindAnnotation = ''cluster.x-k8s.io/cloned-from-groupkind''"

subsection \<open>generateMachine\<close>

text \<open>
  The loop over \<^verbatim>\<open>kcp.Spec.K0sConfigSpec.Args\<close>: the first argument that spells the worker
  flag sets the label and leaves the loop.
\<close>

fun enableWorkerLabel :: "string list \<Rightarrow> (string \<rightharpoonup> string) \<Rightarrow> (string \<rightharpoonup> string)" where
  "enableWorkerLabel [] labels = labels"
| "enableWorkerLabel (arg # args) labels =
     (if arg = ''--enable-worker'' \<or> arg = ''--enable-worker=true''
      then labels(''k0smotron.io/control-plane-worker-enabled'' \<mapsto> ''true'')
      else enableWorkerLabel args labels)"

text \<open>The error result of \<^verbatim>\<open>generateMachine\<close> is always nil, so the model returns the machine.\<close>

definition generateMachine ::
  "string \<Rightarrow> Cluster \<Rightarrow> K0sControlPlane \<Rightarrow> ObjectReference \<Rightarrow> string option \<Rightarrow> Machine" where
  "generateMachine name cluster kcp infraRef failureDomain =
     (let v = kcp_Version kcp;
          labels = [''cluster.x-k8s.io/cluster-name'' \<mapsto> kcp_Name kcp,
                    ''cluster.x-k8s.io/control-plane'' \<mapsto> ''true'',
                    ''cluster.x-k8s.io/generateMachine-role'' \<mapsto> ''control-plane''];
          labels = enableWorkerLabel (cfg_Args (kcp_K0sConfigSpec kcp)) labels
      in \<lparr> machine_APIVersion = GroupVersionString,
           machine_Kind = ''Machine'',
           machine_Name = name,
           machine_Namespace = kcp_Namespace kcp,
           machine_Labels = labels,
           machine_Version = Some v,
           machine_ClusterName = cluster_Name cluster,
           machine_FailureDomain = failureDomain,
           machine_ConfigRef = Some \<lparr> ref_Kind = ''K0sControllerConfig'',
                                      ref_Namespace = '''',
                                      ref_Name = name,
                                      ref_APIVersion = ''bootstrap.cluster.x-k8s.io/v1beta1'' \<rparr>,
           machine_InfrastructureRef = infraRef \<rparr>)"

subsection \<open>matchesTemplateClonedFrom\<close>

text \<open>
  The machine pointer may be nil. \<^verbatim>\<open>kcp.Spec.MachineTemplate\<close> is a pointer as well, and the
  function dereferences it without a check once the infra machine is found: that panic is
  the \<open>Inl NilPointer\<close> branch.
\<close>

definition matchesTemplateClonedFrom ::
  "(string \<rightharpoonup> object) \<Rightarrow> K0sControlPlane \<Rightarrow> Machine option \<Rightarrow> error + bool" where
  "matchesTemplateClonedFrom infraMachines kcp machine =
     (case machine of
        None \<Rightarrow> Inr False
      | Some m \<Rightarrow>
          (case infraMachines (machine_Name m) of
             None \<Rightarrow> Inr False
           | Some infraMachine \<Rightarrow>
               (let clonedFromName =
                      index (GetAnnotations infraMachine) TemplateClonedFromNameAnnotation;
                    clonedFromGroupKind =
                      index (GetAnnotations infraMachine) TemplateClonedFromGroupKindAnnotation
                in case kcp_MachineTemplate kcp of
                     None \<Rightarrow> Inl NilPointer
                   | Some t \<Rightarrow>
                       Inr (clonedFromName = ref_Name (tpl_InfrastructureRef t) \<and>
                            clonedFromGroupKind = GroupKindString (tpl_InfrastructureRef t)))))"

subsection \<open>The workload cluster's API\<close>

text \<open>
  The helpers talk to the workload cluster through a REST client. A request is a verb, an
  absolute path and a body; the cluster answers with success (and a decoded body), with an
  error that \<^verbatim>\<open>apierrors.IsNotFound\<close> recognises, or with any other error. A client is the
  function from requests to answers, and a nil \<^verbatim>\<open>*kubernetes.Clientset\<close> is \<open>None\<close>. Every
  helper returns its result together with the requests it sent, in order.
\<close>

datatype verb = GET | PATCH | POST | DELETE

record request =
  req_Verb :: verb
  req_AbsPath :: string
  req_Body :: string

datatype response = Success json | NotFound | Failure

type_synonym clientset = "request \<Rightarrow> response"


subsection \<open>checkMachineLeft\<close>





subsection \<open>markChildControlNodeToLeave\<close>




subsection \<open>deleteControlNode and deleteMachine\<close>



subsection \<open>createAutopilotPlan\<close>

text \<open>\<^verbatim>\<open>strings.Join\<close>.\<close>

fun Join :: "string list \<Rightarrow> string \<Rightarrow> string" where
  "Join [] sep = []"
| "Join [e] sep = e"
| "Join (e # es) sep = e @ sep @ Join es sep"

text \<open>
  The text of the plan is one concatenation of literal pieces and values. \<open>planHead\<close> is
  the text up to the node list and \<open>planTail\<close> the text after it; the line breaks and the
  indentation of the literal, which stand between JSON tokens, are left out.
\<close>

definition planHead ::
  "string \<Rightarrow> string \<Rightarrow> string \<Rightarrow> string \<Rightarrow> string \<Rightarrow> string \<Rightarrow> string" where
  \<open>planHead name timestamp version amd64DownloadURL arm64DownloadURL armDownloadURL =
     ''{"apiVersion": "autopilot.k0sproject.io/v1beta2","kind": "Plan",''
     @ ''"metadata": {"name": "autopilot"},''
     @ ''"spec": {"id": "id-'' @ name @ ''-'' @ timestamp @ ''",''
     @ ''"timestamp": "'' @ timestamp @ ''",''
     @ ''"commands": [{"k0supdate": {"version": "'' @ version @ ''",''
     @ ''"platforms": {"linux-amd64": {"url": "'' @ amd64DownloadURL @ ''"},''
     @ ''"linux-arm64": {"url": "'' @ arm64DownloadURL @ ''"},''
     @ ''"linux-arm": {"url": "'' @ armDownloadURL @ ''"}},''
     @ ''"targets": {"controllers": {"discovery": {"static": {"nodes": ''\<close>

definition planTail :: string where
  \<open>planTail = ''}}}}}}]}}''\<close>

definition plansPost :: "string \<Rightarrow> request" where
  "plansPost plan =
     \<lparr> req_Verb = POST,
       req_AbsPath = ''/apis/autopilot.k0sproject.io/v1beta2/plans'',
       req_Body = plan \<rparr>"

text \<open>
  \<open>listed\<close> is the result of \<^verbatim>\<open>collections.GetFilteredMachinesForCluster\<close>, the active
  control-plane machines of the cluster in the order \<^verbatim>\<open>Names\<close> walks them, and
  \<open>timestamp\<close> the decimal text of \<^verbatim>\<open>time.Now().Unix()\<close>.
\<close>

definition createAutopilotPlan ::
  "clientset option \<Rightarrow> error + Machine list \<Rightarrow> string \<Rightarrow> K0sControlPlane \<Rightarrow> Cluster
     \<Rightarrow> (error + unit) \<times> request list" where
  \<open>createAutopilotPlan clientset listed timestamp kcp cluster =
     (case clientset of
        None \<Rightarrow> (Inr (), [])
      | Some api \<Rightarrow>
          (case listed of
             Inl err \<Rightarrow> (Inl ListError, [])
           | Inr machines \<Rightarrow>
               (let amd64DownloadURL = ''https://get.k0sproject.io/'' @ kcp_Version kcp
                      @ ''/k0s-'' @ kcp_Version kcp @ ''-amd64'';
                    arm64DownloadURL = ''https://get.k0sproject.io/'' @ kcp_Version kcp
                      @ ''/k0s-'' @ kcp_Version kcp @ ''-arm64'';
                    armDownloadURL = ''https://get.k0sproject.io/'' @ kcp_Version kcp
                      @ ''/k0s-'' @ kcp_Version kcp @ ''-arm'';
                    override = cfg_DownloadURL (kcp_K0sConfigSpec kcp) \<noteq> [];
                    amd64DownloadURL =
                      (if override then cfg_DownloadURL (kcp_K0sConfigSpec kcp)
                       else amd64DownloadURL);
                    arm64DownloadURL =
                      (if override then cfg_DownloadURL (kcp_K0sConfigSpec kcp)
                       else arm64DownloadURL);
                    armDownloadURL =
                      (if override then cfg_DownloadURL (kcp_K0sConfigSpec kcp)
                       else armDownloadURL);
                    plan = planHead (kcp_Name kcp) timestamp (kcp_Version kcp)
                             amd64DownloadURL arm64DownloadURL armDownloadURL
                           @ ''["'' @ Join (map machine_Name machines) ''","'' @ ''"]''
                           @ planTail
                in (case api (plansPost plan) of
                      Success b \<Rightarrow> Inr ()
                    | _ \<Rightarrow> Inl PostError,
                    [plansPost plan]))))\<close>

text \<open>
  The plan the claim describes, and its JSON text: an identifier made of the control
  plane's name and the timestamp, one URL per platform, and the names of the machines as
  the controller targets. A list of strings is rendered as a JSON array.
\<close>

record Plan =
  plan_Id :: string
  plan_Timestamp :: string
  plan_Version :: string
  plan_Amd64 :: string
  plan_Arm64 :: string
  plan_Arm :: string
  plan_Controllers :: "string list"

definition platformURL :: "K0sControlPlane \<Rightarrow> string \<Rightarrow> string" where
  "platformURL kcp arch =
     (if cfg_DownloadURL (kcp_K0sConfigSpec kcp) = []
      then ''https://get.k0sproject.io/'' @ kcp_Version kcp @ ''/k0s-'' @ kcp_Version kcp
           @ ''-'' @ arch
      else cfg_DownloadURL (kcp_K0sConfigSpec kcp))"

definition describedPlan :: "K0sControlPlane \<Rightarrow> string \<Rightarrow> string list \<Rightarrow> Plan" where
  "describedPlan kcp timestamp names =
     \<lparr> plan_Id = ''id-'' @ kcp_Name kcp @ ''-'' @ timestamp,
       plan_Timestamp = timestamp,
       plan_Version = kcp_Version kcp,
       plan_Amd64 = platformURL kcp ''amd64'',
       plan_Arm64 = platformURL kcp ''arm64'',
       plan_Arm = platformURL kcp ''arm'',
       plan_Controllers = names \<rparr>"

definition renderStrings :: "string list \<Rightarrow> string" where
  \<open>renderStrings xs = ''['' @ Join (map (\<lambda>x. ''"'' @ x @ ''"'') xs) '','' @ '']''\<close>

definition renderPlan :: "Plan \<Rightarrow> string" where
  \<open>renderPlan p =
     ''{"apiVersion": "autopilot.k0sproject.io/v1beta2","kind": "Plan",''
     @ ''"metadata": {"name": "autopilot"},''
     @ ''"spec": {"id": "'' @ plan_Id p @ ''",''
     @ ''"timestamp": "'' @ plan_Timestamp p @ ''",''
     @ ''"commands": [{"k0supdate": {"version": "'' @ plan_Version p @ ''",''
     @ ''"platforms": {"linux-amd64": {"url": "'' @ plan_Amd64 p @ ''"},''
     @ ''"linux-arm64": {"url": "'' @ plan_Arm64 p @ ''"},''
     @ ''"linux-arm": {"url": "'' @ plan_Arm p @ ''"}},''
     @ ''"targets": {"controllers": {"discovery": {"static": {"nodes": ''
     @ renderStrings (plan_Controllers p)
     @ ''}}}}}}]}}''\<close>

subsection \<open>Examples\<close>

text \<open>
  The label set that \<^verbatim>\<open>TestReconcileMachinesScaleUp\<close> expects on every generated machine:
  the cluster-name label carries the name of the cluster.
\<close>

definition expectedLabels :: "Cluster \<Rightarrow> (string \<rightharpoonup> string)" where
  "expectedLabels cluster =
     [''cluster.x-k8s.io/cluster-name'' \<mapsto> cluster_Name cluster,
      ''cluster.x-k8s.io/control-plane'' \<mapsto> ''true'',
      ''cluster.x-k8s.io/generateMachine-role'' \<mapsto> ''control-plane'']"

text \<open>A cluster and a control plane with names of their own.\<close>

definition prodCluster :: Cluster where
  "prodCluster =
     \<lparr> cluster_Name = ''prod'',
       cluster_Namespace = ''default'',
       cluster_Paused = False,
       cluster_ClusterNetwork = None,
       cluster_ControlPlaneEndpoint = \<lparr> ep_Host = ''test.endpoint'', ep_Port = 6443 \<rparr> \<rparr>"

definition prodInfraRef :: ObjectReference where
  "prodInfraRef =
     \<lparr> ref_Kind = ''GenericInfrastructureMachineTemplate'',
       ref_Namespace = ''default'',
       ref_Name = ''infra-foo'',
       ref_APIVersion = ''infrastructure.cluster.x-k8s.io/v1beta1'' \<rparr>"

definition prodControlPlane :: K0sControlPlane where
  "prodControlPlane =
     \<lparr> kcp_Name = ''prod-cp'',
       kcp_Namespace = ''default'',
       kcp_Annotations = Map.empty,
       kcp_Version = ''v1.30.0'',
       kcp_Replicas = 1,
       kcp_K0sConfigSpec =
         \<lparr> cfg_K0s = None, cfg_Args = [], cfg_DownloadURL = [],
           cfg_Tunneling = \<lparr> tun_Enabled = False, tun_Mode = [], tun_ServerAddress = [],
                             tun_TunnelingNodePort = 0 \<rparr> \<rparr>,
       kcp_MachineTemplate =
         Some \<lparr> tpl_Labels = Map.empty, tpl_InfrastructureRef = prodInfraRef \<rparr> \<rparr>"

subsection \<open>Scale-down of one machine\<close>
















section \<open>Properties\<close>

subsection \<open>Template lineage\<close>

text \<open>
  C10. \<^verbatim>\<open>matchesTemplateClonedFrom\<close> returns true exactly when the machine is not nil, the
  map holds an infra machine under the machine's name, and that infra machine's
  cloned-from-name and cloned-from-groupkind annotations (read the way Go reads a map, a
  missing annotation being the empty string) equal the name and the group-kind of the
  control plane's \<^verbatim>\<open>machineTemplate.infrastructureRef\<close>. In particular, a machine whose
  infra machine is not in the map is reported as not matching.
\<close>

theorem matchesTemplateClonedFrom_iff:
  "(matchesTemplateClonedFrom infraMachines kcp machine = Inr True \<longleftrightarrow>
      (\<exists>m infraMachine t.
         machine = Some m \<and>
         infraMachines (machine_Name m) = Some infraMachine \<and>
         kcp_MachineTemplate kcp = Some t \<and>
         index (GetAnnotations infraMachine) TemplateClonedFromNameAnnotation
           = ref_Name (tpl_InfrastructureRef t) \<and>
         index (GetAnnotations infraMachine) TemplateClonedFromGroupKindAnnotation
           = GroupKindString (tpl_InfrastructureRef t)))
   \<and> matchesTemplateClonedFrom (infraMachines(machine_Name m' := None)) kcp (Some m') = Inr False
   \<and> matchesTemplateClonedFrom infraMachines kcp None = Inr False"
  by (auto simp: matchesTemplateClonedFrom_def Let_def split: option.splits)


subsection \<open>Etcd departure before scale-down\<close>











subsection \<open>Labels of generated machines\<close>

lemma enableWorkerLabel_eq:
  "enableWorkerLabel args labels =
     (if ''--enable-worker'' \<in> set args \<or> ''--enable-worker=true'' \<in> set args
      then labels(''k0smotron.io/control-plane-worker-enabled'' \<mapsto> ''true'')
      else labels)"
  by (induction args) auto

lemma generateMachine_labels:
  "machine_Labels (generateMachine name cluster kcp infraRef failureDomain) =
     (let labels = [''cluster.x-k8s.io/cluster-name'' \<mapsto> kcp_Name kcp,
                    ''cluster.x-k8s.io/control-plane'' \<mapsto> ''true'',
                    ''cluster.x-k8s.io/generateMachine-role'' \<mapsto> ''control-plane'']
      in if ''--enable-worker'' \<in> set (cfg_Args (kcp_K0sConfigSpec kcp)) \<or>
            ''--enable-worker=true'' \<in> set (cfg_Args (kcp_K0sConfigSpec kcp))
         then labels(''k0smotron.io/control-plane-worker-enabled'' \<mapsto> ''true'')
         else labels)"
  by (simp add: generateMachine_def Let_def enableWorkerLabel_eq)

lemma generateMachine_labels_same_name:
  assumes "kcp_Name kcp = cluster_Name cluster"
    and "''--enable-worker'' \<notin> set (cfg_Args (kcp_K0sConfigSpec kcp))"
    and "''--enable-worker=true'' \<notin> set (cfg_Args (kcp_K0sConfigSpec kcp))"
  shows "machine_Labels (generateMachine name cluster kcp infraRef failureDomain)
           = expectedLabels cluster"
  using assms by (simp add: generateMachine_labels expectedLabels_def)

text \<open>
  C9. The labels of a generated machine are to carry the name of the cluster under
  \<^verbatim>\<open>cluster.x-k8s.io/cluster-name\<close>. \<^verbatim>\<open>generateMachine\<close> writes the name of the control plane
  there: for the cluster \<open>prod\<close> and the control plane \<open>prod-cp\<close> the label is \<open>prod-cp\<close>,
  while the machine's \<^verbatim>\<open>spec.clusterName\<close> is \<open>prod\<close>, and the label set is not the one the
  scale-up test expects for that cluster.
\<close>

theorem generateMachine_cluster_name_label:
  "machine_Labels (generateMachine ''prod-cp-0'' prodCluster prodControlPlane prodInfraRef None)
     = [''cluster.x-k8s.io/cluster-name'' \<mapsto> ''prod-cp'',
        ''cluster.x-k8s.io/control-plane'' \<mapsto> ''true'',
        ''cluster.x-k8s.io/generateMachine-role'' \<mapsto> ''control-plane'']
   \<and> machine_ClusterName
         (generateMachine ''prod-cp-0'' prodCluster prodControlPlane prodInfraRef None) = ''prod''
   \<and> machine_Labels (generateMachine ''prod-cp-0'' prodCluster prodControlPlane prodInfraRef None)
       \<noteq> expectedLabels prodCluster"
proof -
  let ?m = "generateMachine ''prod-cp-0'' prodCluster prodControlPlane prodInfraRef None"
  have l: "machine_Labels ?m
     = [''cluster.x-k8s.io/cluster-name'' \<mapsto> ''prod-cp'',
        ''cluster.x-k8s.io/control-plane'' \<mapsto> ''true'',
        ''cluster.x-k8s.io/generateMachine-role'' \<mapsto> ''control-plane'']"
    by (simp add: generateMachine_def prodControlPlane_def)
  have c: "machine_ClusterName ?m = ''prod''"
    by (simp add: generateMachine_def prodCluster_def)
  have a: "machine_Labels ?m ''cluster.x-k8s.io/cluster-name'' = Some ''prod-cp''"
    by (simp add: l)
  have b: "expectedLabels prodCluster ''cluster.x-k8s.io/cluster-name'' = Some ''prod''"
    by (simp add: expectedLabels_def prodCluster_def)
  have n: "machine_Labels ?m \<noteq> expectedLabels prodCluster"
  proof
    assume "machine_Labels ?m = expectedLabels prodCluster"
    with a b have "Some ''prod-cp'' = Some ''prod''" by simp
    then show False by simp
  qed
  from l c n show ?thesis by blast
qed

subsection \<open>The autopilot plan\<close>

lemma Join_quoted:
  \<open>xs \<noteq> [] \<Longrightarrow> ''"'' @ Join xs ''","'' @ ''"'' = Join (map (\<lambda>x. ''"'' @ x @ ''"'') xs) '',''\<close>
proof (induction xs)
  case Nil
  then show ?case by simp
next
  case (Cons x xs)
  show ?case
  proof (cases xs)
    case Nil
    then show ?thesis by simp
  next
    case (Cons y ys)
    with Cons.IH show ?thesis by simp
  qed
qed


lemma renderPlan_described:
  "renderPlan (describedPlan kcp timestamp names) =
     planHead (kcp_Name kcp) timestamp (kcp_Version kcp)
       (platformURL kcp ''amd64'') (platformURL kcp ''arm64'') (platformURL kcp ''arm'')
     @ renderStrings names @ planTail"
  by (simp add: renderPlan_def describedPlan_def planHead_def planTail_def)

lemma createAutopilotPlan_body:
  "snd (createAutopilotPlan (Some api) (Inr machines) timestamp kcp cluster) =
     [plansPost
        (planHead (kcp_Name kcp) timestamp (kcp_Version kcp)
           (platformURL kcp ''amd64'') (platformURL kcp ''arm64'') (platformURL kcp ''arm'')
         @ [CHR ''['', CHR 0x22] @ Join (map machine_Name machines) [CHR 0x22, CHR '','', CHR 0x22]
         @ [CHR 0x22, CHR '']''] @ planTail)]"
  by (simp add: createAutopilotPlan_def Let_def platformURL_def)

lemma createAutopilotPlan_described:
  assumes "machines \<noteq> []"
  shows "snd (createAutopilotPlan (Some api) (Inr machines) timestamp kcp cluster) =
           [plansPost (renderPlan (describedPlan kcp timestamp (map machine_Name machines)))]"
proof -
  from assms have "map machine_Name machines \<noteq> []" by simp
  from Join_quoted [OF this]
  have "renderStrings (map machine_Name machines)
        = [CHR ''['', CHR 0x22] @ Join (map machine_Name machines) [CHR 0x22, CHR '','', CHR 0x22]
          @ [CHR 0x22, CHR '']'']"
    by (simp add: renderStrings_def)
  then show ?thesis
    by (simp add: createAutopilotPlan_body renderPlan_described)
qed

lemma createAutopilotPlan_guards:
  "createAutopilotPlan None listed timestamp kcp cluster = (Inr (), [])"
  "createAutopilotPlan (Some api) (Inl err) timestamp kcp cluster = (Inl ListError, [])"
  by (simp_all add: createAutopilotPlan_def)

text \<open>
  C2. The plan that \<^verbatim>\<open>createAutopilotPlan\<close> posts is to name exactly the active control-plane
  machines as its controller targets. With no such machine the node list in the text is
  \<^verbatim>\<open>[""]\<close>: the posted plan is the described plan with one target of the empty name, and
  not the described plan with no target.
\<close>

theorem createAutopilotPlan_no_machines:
  "snd (createAutopilotPlan (Some (\<lambda>r. Success JNull)) (Inr []) ''1700000000''
          prodControlPlane prodCluster)
     = [plansPost (renderPlan (describedPlan prodControlPlane ''1700000000'' ['''']))]
   \<and> renderPlan (describedPlan prodControlPlane ''1700000000'' [''''])
       \<noteq> renderPlan (describedPlan prodControlPlane ''1700000000'' [])"
proof -
  have "snd (createAutopilotPlan (Some (\<lambda>r. Success JNull)) (Inr []) ''1700000000''
          prodControlPlane prodCluster)
     = [plansPost (renderPlan (describedPlan prodControlPlane ''1700000000'' ['''']))]"
    by (simp only: createAutopilotPlan_body renderPlan_described)
       (simp add: renderStrings_def)
  moreover have "renderPlan (describedPlan prodControlPlane ''1700000000'' [''''])
       \<noteq> renderPlan (describedPlan prodControlPlane ''1700000000'' [])"
    by (simp only: renderPlan_described) (simp add: renderStrings_def)
  ultimately show ?thesis by blast
qed

end
